theory Spec2Isabelle
  imports Main
begin

section \<open>Values shared by all components\<close>

text \<open>
  JSON-shaped values (\<^verbatim>\<open>unknown\<close>, \<^verbatim>\<open>Record<string, unknown>\<close> in the source).
  An object is an association list; a key whose value is \<^verbatim>\<open>undefined\<close> is left out,
  as \<^verbatim>\<open>JSON.stringify\<close> leaves it out.
\<close>

datatype json =
    JNull
  | JBool bool
  | JNum int
  | JStr string
  | JArr "json list"
  | JObj "(string \<times> json) list"

text \<open>
  The error classes of \<^verbatim>\<open>utils/errors.ts\<close> that the engine throws or tests for, and
  the plain \<^verbatim>\<open>Error\<close> of JavaScript.  \<^verbatim>\<open>OtherError name message\<close> is an error of any
  other class, thrown by an external collaborator.
\<close>

datatype error =
    Error string
  | ValidationError string
  | AgentExecutionError string "(string \<times> json) list"
  | FirestoreError string
  | TimeoutError string
  | OtherError string string

fun error_message :: "error \<Rightarrow> string" where
  "error_message (Error m) = m"
| "error_message (ValidationError m) = m"
| "error_message (AgentExecutionError m d) = m"
| "error_message (FirestoreError m) = m"
| "error_message (TimeoutError m) = m"
| "error_message (OtherError n m) = m"

text \<open>\<^verbatim>\<open>this.name = this.constructor.name\<close> in \<^verbatim>\<open>AppError\<close>.\<close>

fun error_name :: "error \<Rightarrow> string" where
  "error_name (Error m) = ''Error''"
| "error_name (ValidationError m) = ''ValidationError''"
| "error_name (AgentExecutionError m d) = ''AgentExecutionError''"
| "error_name (FirestoreError m) = ''FirestoreError''"
| "error_name (TimeoutError m) = ''TimeoutError''"
| "error_name (OtherError n m) = n"


text \<open>\<^verbatim>\<open>error instanceof TimeoutError\<close>.\<close>

fun instanceof_TimeoutError :: "error \<Rightarrow> bool" where
  "instanceof_TimeoutError (TimeoutError m) = True"
| "instanceof_TimeoutError e = False"

section \<open>Streaming Manager (\<^verbatim>\<open>agent/streaming/sse-manager.ts\<close>)\<close>

datatype SSEEventType = PROGRESS | TOOL_USE | THINKING | COMPLETE | ERROR | PING

text \<open>The string value of each member of the enum.\<close>

fun event_string :: "SSEEventType \<Rightarrow> string" where
  "event_string PROGRESS = ''progress''"
| "event_string TOOL_USE = ''tool_use''"
| "event_string THINKING = ''thinking''"
| "event_string COMPLETE = ''complete''"
| "event_string ERROR = ''error''"
| "event_string PING = ''ping''"

record SSEEvent =
  etype :: SSEEventType
  data :: json
  timestamp :: "string option"

text \<open>
  One frame on the wire: \<^verbatim>\<open>event: <event>\ndata: <data>\n\n\<close>, where \<^verbatim>\<open>data\<close> is the
  text \<^verbatim>\<open>JSON.stringify\<close> gives for the payload.  The frame is kept structured: the
  event name and the payload that was serialised.
\<close>

record SSEMessage =
  event :: string
  payload :: json

text \<open>
  The HTTP response of the framework, as far as the manager uses it: the headers set, the
  frames written, whether \<^verbatim>\<open>end()\<close> was called.  \<^verbatim>\<open>writeFails\<close> is the environment's
  part: whether \<^verbatim>\<open>write\<close> throws on this response.
\<close>

record Response =
  headers :: "(string \<times> string) list"
  written :: "SSEMessage list"
  ended :: bool
  writeFails :: bool

definition setHeader :: "string \<Rightarrow> string \<Rightarrow> Response \<Rightarrow> Response" where
  "setHeader k v r = r\<lparr>headers := headers r @ [(k, v)]\<rparr>"

definition response_write :: "SSEMessage \<Rightarrow> Response \<Rightarrow> error + Response" where
  "response_write msg r =
     (if writeFails r then Inl (Error ''write failed'')
      else Inr (r\<lparr>written := written r @ [msg]\<rparr>))"

definition end_response :: "Response \<Rightarrow> Response" where
  "end_response r = r\<lparr>ended := True\<rparr>"

text \<open>
  The manager object.  \<^verbatim>\<open>pingInterval\<close> tells whether the 15 second interval timer is
  armed (\<^verbatim>\<open>setInterval\<close> arms it, \<^verbatim>\<open>clearInterval\<close> disarms it).
\<close>

record SSEManager =
  response :: Response
  clientId :: string
  isClosed :: bool
  pingInterval :: bool

definition formatSSEMessage :: "string \<Rightarrow> json \<Rightarrow> SSEMessage" where
  "formatSSEMessage ev d = \<lparr>event = ev, payload = d\<rparr>"

text \<open>
  \<^verbatim>\<open>sendEvent\<close>: returns at once on a closed manager; otherwise writes the frame, and an
  exception of the write is caught and logged, never rethrown.  (The timestamp added to
  the copy of the event is not part of what is serialised, which is \<^verbatim>\<open>data\<close> alone.)
\<close>

definition sendEvent :: "SSEEvent \<Rightarrow> SSEManager \<Rightarrow> SSEManager" where
  "sendEvent ev m =
     (if isClosed m then m
      else (case response_write (formatSSEMessage (event_string (etype ev)) (data ev)) (response m) of
              Inr r \<Rightarrow> m\<lparr>response := r\<rparr>
            | Inl e \<Rightarrow> m))"

definition opt_field :: "string \<Rightarrow> json option \<Rightarrow> (string \<times> json) list" where
  "opt_field k v = (case v of None \<Rightarrow> [] | Some x \<Rightarrow> [(k, x)])"

definition sendProgress :: "string \<Rightarrow> int option \<Rightarrow> SSEManager \<Rightarrow> SSEManager" where
  "sendProgress msg progress m =
     sendEvent \<lparr>etype = PROGRESS,
                data = JObj ([(''message'', JStr msg)] @ opt_field ''progress'' (map_option JNum progress)),
                timestamp = None\<rparr> m"

definition sendToolUse :: "string \<Rightarrow> json \<Rightarrow> json option \<Rightarrow> SSEManager \<Rightarrow> SSEManager" where
  "sendToolUse toolName inp out m =
     sendEvent \<lparr>etype = TOOL_USE,
                data = JObj ([(''toolName'', JStr toolName), (''input'', inp)]
                             @ opt_field ''output'' out),
                timestamp = None\<rparr> m"

definition sendThinking :: "string \<Rightarrow> SSEManager \<Rightarrow> SSEManager" where
  "sendThinking c m =
     sendEvent \<lparr>etype = THINKING, data = JObj [(''content'', JStr c)], timestamp = None\<rparr> m"

definition sendComplete :: "json \<Rightarrow> SSEManager \<Rightarrow> SSEManager" where
  "sendComplete res m = sendEvent \<lparr>etype = COMPLETE, data = res, timestamp = None\<rparr> m"

definition sendError :: "string \<Rightarrow> string option \<Rightarrow> SSEManager \<Rightarrow> SSEManager" where
  "sendError msg c m =
     sendEvent \<lparr>etype = ERROR,
                data = JObj ([(''message'', JStr msg)] @ opt_field ''code'' (map_option JStr c)),
                timestamp = None\<rparr> m"

definition close :: "SSEManager \<Rightarrow> SSEManager" where
  "close m =
     (if isClosed m then m
      else m\<lparr>isClosed := True, pingInterval := False, response := end_response (response m)\<rparr>)"

text \<open>The getter \<^verbatim>\<open>closed\<close>.\<close>

definition closed :: "SSEManager \<Rightarrow> bool" where
  "closed m = isClosed m"

text \<open>The callback given to \<^verbatim>\<open>setInterval\<close> in \<^verbatim>\<open>startPingInterval\<close>.\<close>

definition pingCallback :: "SSEManager \<Rightarrow> SSEManager" where
  "pingCallback m =
     (if \<not> isClosed m
      then sendEvent \<lparr>etype = PING, data = JObj [(''alive'', JBool True)], timestamp = None\<rparr> m
      else m)"

definition startPingInterval :: "SSEManager \<Rightarrow> SSEManager" where
  "startPingInterval m = m\<lparr>pingInterval := True\<rparr>"

definition handleDisconnect :: "SSEManager \<Rightarrow> SSEManager" where
  "handleDisconnect m =
     (if isClosed m then m
      else m\<lparr>isClosed := True, pingInterval := False\<rparr>)"

definition setupSSE :: "SSEManager \<Rightarrow> SSEManager" where
  "setupSSE m =
     startPingInterval
       (m\<lparr>response :=
            setHeader ''X-Accel-Buffering'' ''no''
              (setHeader ''Connection'' ''keep-alive''
                (setHeader ''Cache-Control'' ''no-cache''
                  (setHeader ''Content-Type'' ''text/event-stream'' (response m))))\<rparr>)"

definition createSSEManager :: "Response \<Rightarrow> string \<Rightarrow> SSEManager" where
  "createSSEManager res cid =
     setupSSE \<lparr>response = res, clientId = cid, isClosed = False, pingInterval = False\<rparr>"

text \<open>
  What happens to a manager from outside, between the steps of its owner: the interval
  timer fires (the callback runs only while the timer is armed), or the response emits
  \<^verbatim>\<open>close\<close> because the remote end went away.
\<close>

datatype AsyncEvent = Heartbeat | RemoteClose

fun handleAsync :: "SSEManager \<Rightarrow> AsyncEvent \<Rightarrow> SSEManager" where
  "handleAsync m Heartbeat = (if pingInterval m then pingCallback m else m)"
| "handleAsync m RemoteClose = handleDisconnect m"

text \<open>
  Everything that can happen to a manager once it exists: a call of \<^verbatim>\<open>sendEvent\<close> or
  \<^verbatim>\<open>close\<close> by its owner, or an event from outside.
\<close>

datatype SSEOp = Send SSEEvent | Close | Async AsyncEvent

fun applyOp :: "SSEManager \<Rightarrow> SSEOp \<Rightarrow> SSEManager" where
  "applyOp m (Send ev) = sendEvent ev m"
| "applyOp m Close = close m"
| "applyOp m (Async a) = handleAsync m a"

definition runOps :: "SSEOp list \<Rightarrow> SSEManager \<Rightarrow> SSEManager" where
  "runOps ops m = foldl applyOp m ops"

section \<open>Text helpers\<close>

definition apostrophe :: char where
  "apostrophe = CHR 0x27"

definition newline :: char where
  "newline = CHR 0x0A"

text \<open>The decimal text of a number, as a template literal prints it.\<close>

definition digit :: "nat \<Rightarrow> char" where
  "digit d = ''0123456789'' ! d"

fun string_of_nat :: "nat \<Rightarrow> string" where
  "string_of_nat n =
     (if n < 10 then [digit n]
      else string_of_nat (n div 10) @ [digit (n mod 10)])"

declare string_of_nat.simps [simp del]

text \<open>\<^verbatim>\<open>Array.prototype.join\<close> on strings.\<close>

fun join :: "string \<Rightarrow> string list \<Rightarrow> string" where
  "join sep [] = []"
| "join sep [x] = x"
| "join sep (x # y # ys) = x @ sep @ join sep (y # ys)"

text \<open>A string is truthy when it is present and not empty.\<close>

definition truthy :: "string option \<Rightarrow> bool" where
  "truthy s = (case s of None \<Rightarrow> False | Some c \<Rightarrow> c \<noteq> [])"

section \<open>Messages of the completion client\<close>

text \<open>
  A content block of a model response: a text block, a tool-use block
  \<^verbatim>\<open>ToolUseBlock id name input\<close>, or a block of another type.
\<close>

datatype ContentBlock =
    TextBlock string
  | ToolUseBlock string string json
  | OtherBlock

datatype StopReason = end_turn | tool_use | max_tokens | stop_sequence | other_stop

record Usage =
  input_tokens :: nat
  output_tokens :: nat

record Message =
  content :: "ContentBlock list"
  stop_reason :: StopReason
  usage :: "Usage option"

text \<open>
  The content of a tool result handed back to the model: what the tool returned, passed
  through unchanged, or the text \<^verbatim>\<open>JSON.stringify\<close> gives for a value.
\<close>

datatype ToolResultContent = FromTool json | JSON_stringify json

record ToolResultBlockParam =
  tool_use_id :: string
  content :: ToolResultContent
  is_error :: "bool option"

datatype Role = user | assistant

datatype ParamContent =
    Text string
  | Blocks "ContentBlock list"
  | ToolResults "ToolResultBlockParam list"

record MessageParam =
  role :: Role
  content :: ParamContent

text \<open>
  What awaiting a promise gives inside the deadline of the executor: the promise is
  fulfilled, it is rejected, or it is still pending when the timer of
  \<^verbatim>\<open>executeWithTimeout\<close> fires.  The timer can only fire while the loop is suspended in
  such an \<^verbatim>\<open>await\<close>.
\<close>

datatype 'a awaited = Resolved 'a | Rejected error | Unsettled

section \<open>Agent context (\<^verbatim>\<open>agent/context/agent-context.ts\<close>)\<close>

record AgentContext =
  userId :: string
  taskId :: string
  conversationId :: "string option"
  metadata :: "(string \<times> json) list option"

record ContextOptions =
  conversationId :: "string option"
  metadata :: "(string \<times> json) list option"

text \<open>
  \<^verbatim>\<open>createAgentContext(userId, taskId, options)\<close>: the first parameter becomes the
  field \<^verbatim>\<open>userId\<close>, the second the field \<^verbatim>\<open>taskId\<close>.
\<close>

definition createAgentContext :: "string \<Rightarrow> string \<Rightarrow> ContextOptions \<Rightarrow> AgentContext" where
  "createAgentContext userId' taskId' options =
     (let context = \<lparr>AgentContext.userId = userId', AgentContext.taskId = taskId',
                      AgentContext.conversationId = None, AgentContext.metadata = None\<rparr>;
          context = (if truthy (ContextOptions.conversationId options)
                     then context\<lparr>AgentContext.conversationId := ContextOptions.conversationId options\<rparr>
                     else context);
          context = (case ContextOptions.metadata options of
                       Some md \<Rightarrow> context\<lparr>AgentContext.metadata := Some md\<rparr>
                     | None \<Rightarrow> context)
      in context)"

section \<open>Tools and the environment of the executor\<close>

text \<open>What a tool returns: \<^verbatim>\<open>{ content: unknown; is_error?: boolean }\<close>.\<close>

record ToolResult =
  content :: json
  is_error :: "bool option"

text \<open>
  A tool of the registry.  \<^verbatim>\<open>'w\<close> is the state of the world outside the engine (the
  backing store, the model provider); a tool reads and changes it.
\<close>

record 'w Tool =
  name :: string
  description :: string
  input_schema :: json
  execute :: "json \<Rightarrow> AgentContext \<Rightarrow> 'w \<Rightarrow> ToolResult awaited \<times> 'w"

text \<open>
  What the executor imports: the completion client (\<^verbatim>\<open>client.messages.create\<close>, of which
  only the conversation varies between calls), the registry \<^verbatim>\<open>allTools\<close>,
  \<^verbatim>\<open>CLAUDE_CONFIG.MAX_ITERATIONS\<close> and \<^verbatim>\<open>env.AGENT_TIMEOUT_MS\<close>.  The executor runs
  on one thread, so a timer or a connection event can reach the attached manager only
  while the executor awaits an external call: \<^verbatim>\<open>asyncEvents w\<close> are the events that
  arrive during the call issued in the world \<^verbatim>\<open>w\<close>.
\<close>

record 'w Env =
  messages_create :: "MessageParam list \<Rightarrow> 'w \<Rightarrow> Message awaited \<times> 'w"
  allTools :: "'w Tool list"
  MAX_ITERATIONS :: nat
  AGENT_TIMEOUT_MS :: nat
  asyncEvents :: "'w \<Rightarrow> AsyncEvent list"

text \<open>The manager, if one is attached, after the events of an \<^verbatim>\<open>await\<close>.\<close>

definition whileAwaiting :: "'w Env \<Rightarrow> 'w \<Rightarrow> SSEManager option \<Rightarrow> SSEManager option" where
  "whileAwaiting E w sse = map_option (\<lambda>m. foldl handleAsync m (asyncEvents E w)) sse"

text \<open>The values the configuration gives: 20 iterations, and 120000 ms by default.\<close>

definition CLAUDE_CONFIG_MAX_ITERATIONS :: nat where
  "CLAUDE_CONFIG_MAX_ITERATIONS = 20"

definition DEFAULT_AGENT_TIMEOUT_MS :: nat where
  "DEFAULT_AGENT_TIMEOUT_MS = 120000"

section \<open>Stream formatter (\<^verbatim>\<open>agent/streaming/stream-formatter.ts\<close>)\<close>

fun streamBlock :: "SSEManager \<Rightarrow> ContentBlock \<Rightarrow> SSEManager" where
  "streamBlock m (TextBlock t) = sendThinking t m"
| "streamBlock m (ToolUseBlock i n inp) = sendToolUse n inp None m"
| "streamBlock m OtherBlock = m"

definition streamAgentResponse :: "Message \<Rightarrow> SSEManager \<Rightarrow> SSEManager" where
  "streamAgentResponse resp m = foldl streamBlock m (Message.content resp)"

text \<open>
  \<^verbatim>\<open>c.type === 'text'\<close> for an element of the content array: reading a property of
  \<^verbatim>\<open>null\<close> throws a \<^verbatim>\<open>TypeError\<close>; a value that is not an object has no such property.
\<close>

fun type_is_text :: "json \<Rightarrow> error + bool" where
  "type_is_text JNull =
     Inl (OtherError ''TypeError'' ''Cannot read properties of null'')"
| "type_is_text (JObj kvs) = Inr (map_of kvs ''type'' = Some (JStr ''text''))"
| "type_is_text c = Inr False"

text \<open>\<^verbatim>\<open>result.content.find(c => c.type === 'text')\<close>.\<close>

fun find_text :: "json list \<Rightarrow> error + json option" where
  "find_text [] = Inr None"
| "find_text (c # cs) =
     (case type_is_text c of
        Inl e \<Rightarrow> Inl e
      | Inr True \<Rightarrow> Inr (Some c)
      | Inr False \<Rightarrow> find_text cs)"

definition streamToolResult ::
  "string \<Rightarrow> string \<Rightarrow> ToolResult \<Rightarrow> SSEManager \<Rightarrow> error + SSEManager" where
  "streamToolResult toolName toolId res m =
     (case (case ToolResult.content res of JArr cs \<Rightarrow> find_text cs | c \<Rightarrow> Inr None) of
        Inl e \<Rightarrow> Inl e
      | Inr textContent \<Rightarrow>
          (let resultText =
                 (case textContent of
                    Some (JObj kvs) \<Rightarrow>
                      (case map_of kvs ''text'' of Some t \<Rightarrow> t | None \<Rightarrow> JStr ''Tool executed'')
                  | other \<Rightarrow> JStr ''Tool executed'')
           in Inr (sendToolUse toolName (JObj [(''toolId'', JStr toolId)]) (Some resultText) m)))"

text \<open>
  \<^verbatim>\<open>tokensUsed: { input, output, total }\<close> (the field names carry a prefix here, since
  \<^verbatim>\<open>output\<close> is reserved).
\<close>

record TokensUsed =
  tokens_input :: nat
  tokens_output :: nat
  tokens_total :: nat

record AgentExecutionResult =
  taskId :: string
  result :: string
  toolsUsed :: nat
  iterations :: nat
  durationMs :: int
  tokensUsed :: "TokensUsed option"

definition tokens_json :: "TokensUsed \<Rightarrow> json" where
  "tokens_json t =
     JObj [(''input'', JNum (int (tokens_input t))), (''output'', JNum (int (tokens_output t))),
           (''total'', JNum (int (tokens_total t)))]"

text \<open>The fields of an execution result that carry its metadata, as a JSON object.\<close>

definition result_json :: "AgentExecutionResult \<Rightarrow> json" where
  "result_json r =
     JObj ([(''taskId'', JStr (AgentExecutionResult.taskId r)),
            (''result'', JStr (result r)),
            (''toolsUsed'', JNum (int (toolsUsed r))),
            (''iterations'', JNum (int (iterations r))),
            (''durationMs'', JNum (durationMs r))]
           @ opt_field ''tokensUsed'' (map_option tokens_json (tokensUsed r)))"

definition streamTaskCompletion ::
  "string \<Rightarrow> string \<Rightarrow> AgentExecutionResult \<Rightarrow> SSEManager \<Rightarrow> SSEManager" where
  "streamTaskCompletion tid res md m =
     sendComplete (JObj [(''taskId'', JStr tid), (''result'', JStr res),
                         (''metadata'', result_json md)]) m"

text \<open>\<^verbatim>\<open>streamError\<close>, called with a manager: sends only while the manager is open.\<close>

definition streamError :: "error \<Rightarrow> string \<Rightarrow> SSEManager \<Rightarrow> SSEManager" where
  "streamError e tid m =
     (if \<not> closed m then sendError (error_message e) (Some (error_name e)) m else m)"

section \<open>Agent Executor (\<^verbatim>\<open>agent/agent-executor.ts\<close>)\<close>

record AgentTaskInput =
  task :: string
  userId :: string
  conversationId :: "string option"
  metadata :: "(string \<times> json) list option"

fun is_tool_use :: "ContentBlock \<Rightarrow> bool" where
  "is_tool_use (ToolUseBlock i n inp) = True"
| "is_tool_use b = False"

fun is_text :: "ContentBlock \<Rightarrow> bool" where
  "is_text (TextBlock t) = True"
| "is_text b = False"

text \<open>\<^verbatim>\<open>block.type === 'text' ? block.text : ''\<close>.\<close>

fun block_text :: "ContentBlock \<Rightarrow> string" where
  "block_text (TextBlock t) = t"
| "block_text b = []"

definition countToolUses :: "Message \<Rightarrow> nat" where
  "countToolUses resp = length (filter is_tool_use (Message.content resp))"

definition extractTextFromResponse :: "Message \<Rightarrow> string" where
  "extractTextFromResponse resp =
     (let textBlocks = filter is_text (Message.content resp)
      in if length textBlocks = 0 then ''Task completed (no text output)''
         else join [newline, newline] (map block_text textBlocks))"

text \<open>
  The body of the \<^verbatim>\<open>try\<close> block of \<^verbatim>\<open>executeTools\<close> for one tool-use block with id
  \<^verbatim>\<open>bid\<close>, name \<^verbatim>\<open>bname\<close> and input \<^verbatim>\<open>binput\<close>: look the tool up, throw when it is
  absent, run it (\<^verbatim>\<open>sseA\<close> is the manager after the events of this \<^verbatim>\<open>await\<close>),
  stream its result when a manager is attached, build the tool result.
\<close>

definition tryTool ::
  "'w Env \<Rightarrow> AgentContext \<Rightarrow> string \<Rightarrow> string \<Rightarrow> json \<Rightarrow> SSEManager option \<Rightarrow> 'w
     \<Rightarrow> ToolResultBlockParam awaited \<times> SSEManager option \<times> 'w" where
  "tryTool E context bid bname binput sse w =
     (case find (\<lambda>t. Tool.name t = bname) (allTools E) of
        None \<Rightarrow>
          (Rejected (Error (''Tool '' @ [apostrophe] @ bname @ [apostrophe] @ '' not found'')), sse, w)
      | Some tool \<Rightarrow>
          (let sseA = whileAwaiting E w sse in
           case execute tool binput context w of
             (Unsettled, w') \<Rightarrow> (Unsettled, sseA, w')
           | (Rejected e, w') \<Rightarrow> (Rejected e, sseA, w')
           | (Resolved res, w') \<Rightarrow>
               (case (case sseA of
                        None \<Rightarrow> Inr None
                      | Some m \<Rightarrow> map_sum id Some (streamToolResult bname bid res m)) of
                  Inl e \<Rightarrow> (Rejected e, sseA, w')
                | Inr sse' \<Rightarrow>
                    (Resolved \<lparr>tool_use_id = bid,
                               ToolResultBlockParam.content = FromTool (ToolResult.content res),
                               ToolResultBlockParam.is_error = ToolResult.is_error res\<rparr>,
                     sse', w'))))"

text \<open>The tool result pushed by the \<^verbatim>\<open>catch\<close> block.\<close>

definition errorToolResult :: "string \<Rightarrow> error \<Rightarrow> ToolResultBlockParam" where
  "errorToolResult bid e =
     \<lparr>tool_use_id = bid,
      ToolResultBlockParam.content =
        JSON_stringify (JObj [(''success'', JBool False), (''error'', JStr (error_message e))]),
      ToolResultBlockParam.is_error = Some True\<rparr>"

text \<open>
  \<^verbatim>\<open>executeTools\<close>: the \<^verbatim>\<open>for\<close> loop over the content blocks of the response, with
  the array \<^verbatim>\<open>toolResults\<close> as accumulator.
\<close>

fun executeTools ::
  "'w Env \<Rightarrow> AgentContext \<Rightarrow> ContentBlock list \<Rightarrow> ToolResultBlockParam list
     \<Rightarrow> SSEManager option \<Rightarrow> 'w
     \<Rightarrow> ToolResultBlockParam list awaited \<times> SSEManager option \<times> 'w" where
  "executeTools E context [] toolResults sse w = (Resolved toolResults, sse, w)"
| "executeTools E context (ToolUseBlock bid bname binput # blocks) toolResults sse w =
     (case tryTool E context bid bname binput sse w of
        (Resolved toolResult, sse', w') \<Rightarrow>
          executeTools E context blocks (toolResults @ [toolResult]) sse' w'
      | (Rejected e, sse', w') \<Rightarrow>
          executeTools E context blocks (toolResults @ [errorToolResult bid e]) sse' w'
      | (Unsettled, sse', w') \<Rightarrow> (Unsettled, sse', w'))"
| "executeTools E context (b # blocks) toolResults sse w =
     executeTools E context blocks toolResults sse w"

text \<open>
  What the agent loop leaves behind: how its promise settled, the \<^verbatim>\<open>messages\<close> array
  and the manager as the loop left them, the value of the counter \<^verbatim>\<open>iteration\<close> (one
  more for every call of the completion client), and the world.  In the loop,
  \<^verbatim>\<open>whileAwaiting E w sse\<close> is the manager after the events that arrive while the
  request to the completion client is awaited.
\<close>

record 'w LoopResult =
  settled :: "Message awaited"
  conversation :: "MessageParam list"
  manager :: "SSEManager option"
  modelCalls :: nat
  world :: 'w

function executeAgentLoop ::
  "'w Env \<Rightarrow> AgentContext \<Rightarrow> MessageParam list \<Rightarrow> SSEManager option \<Rightarrow> nat \<Rightarrow> 'w
     \<Rightarrow> 'w LoopResult" where
  "executeAgentLoop E context messages sse iteration w =
     (if iteration < MAX_ITERATIONS E then
        (case messages_create E messages w of
           (Unsettled, w1) \<Rightarrow>
             \<lparr>settled = Unsettled, conversation = messages, manager = whileAwaiting E w sse,
              modelCalls = iteration + 1, world = w1\<rparr>
         | (Rejected e, w1) \<Rightarrow>
             \<lparr>settled = Rejected e, conversation = messages, manager = whileAwaiting E w sse,
              modelCalls = iteration + 1, world = w1\<rparr>
         | (Resolved resp, w1) \<Rightarrow>
             (let sse1 = map_option (streamAgentResponse resp) (whileAwaiting E w sse) in
              if stop_reason resp = end_turn then
                \<lparr>settled = Resolved resp, conversation = messages, manager = sse1,
                 modelCalls = iteration + 1, world = w1\<rparr>
              else if stop_reason resp = tool_use then
                (let sse2 = map_option (sendProgress ''Executing tools...'' (Some 50)) sse1 in
                 case executeTools E context (Message.content resp) [] sse2 w1 of
                   (Resolved toolResults, sse3, w2) \<Rightarrow>
                     executeAgentLoop E context
                       (messages @ [\<lparr>role = assistant, MessageParam.content = Blocks (Message.content resp)\<rparr>,
                                    \<lparr>role = user, MessageParam.content = ToolResults toolResults\<rparr>])
                       sse3 (iteration + 1) w2
                 | (Rejected e, sse3, w2) \<Rightarrow>
                     \<lparr>settled = Rejected e, conversation = messages, manager = sse3,
                      modelCalls = iteration + 1, world = w2\<rparr>
                 | (Unsettled, sse3, w2) \<Rightarrow>
                     \<lparr>settled = Unsettled, conversation = messages, manager = sse3,
                      modelCalls = iteration + 1, world = w2\<rparr>)
              else if stop_reason resp = max_tokens then
                \<lparr>settled = Resolved resp, conversation = messages, manager = sse1,
                 modelCalls = iteration + 1, world = w1\<rparr>
              else
                \<lparr>settled = Resolved resp, conversation = messages, manager = sse1,
                 modelCalls = iteration + 1, world = w1\<rparr>))
      else
        \<lparr>settled =
           Rejected (AgentExecutionError
             (''Agent exceeded maximum iterations ('' @ string_of_nat (MAX_ITERATIONS E) @ '')'')
             [(''taskId'', JStr (AgentContext.taskId context)),
              (''maxIterations'', JNum (int (MAX_ITERATIONS E)))]),
         conversation = messages, manager = sse, modelCalls = iteration, world = w\<rparr>)"
  by pat_completeness auto
termination
  by (relation "measure (\<lambda>(E, context, messages, sse, iteration, w). MAX_ITERATIONS E - iteration)") auto

declare executeAgentLoop.simps [simp del]

text \<open>
  \<^verbatim>\<open>executeWithTimeout\<close>: \<^verbatim>\<open>Promise.race\<close> of the loop and a timer that rejects with a
  \<^verbatim>\<open>TimeoutError\<close>.  The race settles as the loop does (\<^verbatim>\<open>Inr\<close> its value,
  \<^verbatim>\<open>Inl\<close> its error), unless the loop is still pending when the timer fires.
\<close>

definition executeWithTimeout :: "'a awaited \<Rightarrow> nat \<Rightarrow> error + 'a" where
  "executeWithTimeout p timeoutMs =
     (case p of
        Unsettled \<Rightarrow>
          Inl (TimeoutError
            (''Agent execution timed out after '' @ string_of_nat timeoutMs @ ''ms''))
      | Resolved v \<Rightarrow> Inr v
      | Rejected e \<Rightarrow> Inl e)"

text \<open>
  \<^verbatim>\<open>executeTask\<close>.  \<^verbatim>\<open>newTaskId\<close> is the value of \<^verbatim>\<open>randomUUID()\<close>, \<^verbatim>\<open>startTime\<close> and
  \<^verbatim>\<open>endTime\<close> are the two readings of \<^verbatim>\<open>Date.now()\<close>.  The result is what the caller
  gets (the error thrown, or the execution result), the manager and the world.
\<close>

definition executeTask ::
  "'w Env \<Rightarrow> string \<Rightarrow> int \<Rightarrow> int \<Rightarrow> AgentTaskInput \<Rightarrow> SSEManager option \<Rightarrow> 'w
     \<Rightarrow> (error + AgentExecutionResult) \<times> SSEManager option \<times> 'w" where
  "executeTask E newTaskId startTime endTime inp sseManager w =
     (let sse0 = map_option (sendProgress ''Starting task execution...'' (Some 0)) sseManager;
          contextOptions =
            \<lparr>ContextOptions.conversationId =
               (if truthy (AgentTaskInput.conversationId inp)
                then AgentTaskInput.conversationId inp else None),
             ContextOptions.metadata = AgentTaskInput.metadata inp\<rparr>;
          context = createAgentContext newTaskId (AgentTaskInput.userId inp) contextOptions;
          messages = [\<lparr>role = user, MessageParam.content = Text (AgentTaskInput.task inp)\<rparr>];
          loop = executeAgentLoop E context messages sse0 0 w
      in case executeWithTimeout (settled loop) (AGENT_TIMEOUT_MS E) of
           Inr resp \<Rightarrow>
             (let iterations' = 1;
                  toolsUsed' = countToolUses resp;
                  finalText = extractTextFromResponse resp;
                  durationMs' = endTime - startTime;
                  res = \<lparr>AgentExecutionResult.taskId = newTaskId,
                         result = finalText,
                         toolsUsed = toolsUsed',
                         iterations = iterations',
                         durationMs = durationMs',
                         tokensUsed =
                           (case usage resp of
                              None \<Rightarrow> None
                            | Some u \<Rightarrow>
                                Some \<lparr>tokens_input = input_tokens u,
                                      tokens_output = output_tokens u,
                                      tokens_total = input_tokens u + output_tokens u\<rparr>)\<rparr>
              in (Inr res,
                  map_option (\<lambda>m. close (streamTaskCompletion newTaskId finalText res m)) (manager loop),
                  world loop))
         | Inl e \<Rightarrow>
             (let durationMs' = endTime - startTime;
                  sse' = map_option (\<lambda>m. close (streamError e newTaskId m)) (manager loop)
              in (if instanceof_TimeoutError e then Inl e
                  else Inl (AgentExecutionError
                         (''Agent task execution failed: '' @ error_message e)
                         [(''taskId'', JStr newTaskId), (''iterations'', JNum 0),
                          (''toolsUsed'', JNum 0), (''durationMs'', JNum durationMs')]),
                  sse', world loop)))"

section \<open>Task Tracker (\<^verbatim>\<open>services/task-tracker.service.ts\<close>)\<close>

datatype TaskStatus = PENDING | IN_PROGRESS | COMPLETED | FAILED | CANCELLED

record TaskError =
  message :: string
  code :: "string option"

record TaskRecord =
  taskId :: string
  userId :: string
  task :: string
  status :: TaskStatus
  result :: "string option"
  error :: "TaskError option"
  metadata :: "(string \<times> json) list option"
  createdAt :: int
  updatedAt :: int
  completedAt :: "int option"

text \<open>
  The collection \<^verbatim>\<open>agent_tasks\<close> of the document store: a map from document id to
  document.  \<^verbatim>\<open>set\<close> writes the document whether or not it exists; \<^verbatim>\<open>update\<close>
  changes the given fields of an existing document, keeps the others, and fails when the
  document does not exist.
\<close>

type_synonym Firestore = "string \<rightharpoonup> TaskRecord"









section \<open>Task queue and worker\<close>






record JobProgress =
  progressStatus :: string
  progress :: nat

text \<open>\<^verbatim>\<open>AgentTaskJobResult\<close> has the fields of \<^verbatim>\<open>AgentExecutionResult\<close>.\<close>

type_synonym AgentTaskJobResult = AgentExecutionResult


text \<open>
  The state a job run works on: the progress reports of the job, the tracker's store and
  the world.
\<close>

record 'w WorkerState =
  progressLog :: "JobProgress list"
  store :: Firestore
  outside :: 'w




section \<open>The broker\<close>


datatype JobState = completed AgentTaskJobResult | failed error




section \<open>Notions used in the statements\<close>

text \<open>The agent loop as \<^verbatim>\<open>executeTask\<close> starts it.\<close>

definition agentLoopOfTask ::
  "'w Env \<Rightarrow> string \<Rightarrow> AgentTaskInput \<Rightarrow> SSEManager option \<Rightarrow> 'w \<Rightarrow> 'w LoopResult" where
  "agentLoopOfTask E newTaskId inp sseManager w =
     executeAgentLoop E
       (createAgentContext newTaskId (AgentTaskInput.userId inp)
          \<lparr>ContextOptions.conversationId =
             (if truthy (AgentTaskInput.conversationId inp)
              then AgentTaskInput.conversationId inp else None),
           ContextOptions.metadata = AgentTaskInput.metadata inp\<rparr>)
       [\<lparr>role = user, MessageParam.content = Text (AgentTaskInput.task inp)\<rparr>]
       (map_option (sendProgress ''Starting task execution...'' (Some 0)) sseManager)
       0 w"


text \<open>The token counts \<^verbatim>\<open>executeTask\<close> reports for a usage record.\<close>

definition tokensOfUsage :: "Usage \<Rightarrow> TokensUsed" where
  "tokensOfUsage u =
     \<lparr>tokens_input = input_tokens u, tokens_output = output_tokens u,
      tokens_total = input_tokens u + output_tokens u\<rparr>"




text \<open>
  A manager \<open>m\<close> is streaming from \<open>m0\<close> on, with events named in \<open>A\<close>, when it is open,
  its response takes writes, and all it has written beyond what \<open>m0\<close> had written are
  events named in \<open>A\<close>.
\<close>

definition streaming :: "string set \<Rightarrow> SSEManager \<Rightarrow> SSEManager \<Rightarrow> bool" where
  "streaming A m0 m =
     (\<not> isClosed m \<and> \<not> writeFails (response m) \<and>
      (\<exists>pre. written (response m) = written (response m0) @ pre \<and>
             list_all (\<lambda>f. event f \<in> A) pre))"

text \<open>The same for an optional manager that is present.\<close>

definition attached :: "string set \<Rightarrow> SSEManager \<Rightarrow> SSEManager option \<Rightarrow> bool" where
  "attached A m0 sse = (case sse of None \<Rightarrow> False | Some m \<Rightarrow> streaming A m0 m)"




section \<open>Example inputs\<close>

text \<open>
  A world for the examples: the number of requests the completion client has served, and
  the tools that have run, each with the context it received.
\<close>

record ExampleWorld =
  requests :: nat
  invocations :: "(string \<times> AgentContext) list"

definition emptyWorld :: ExampleWorld where
  "emptyWorld = \<lparr>requests = 0, invocations = []\<rparr>"

text \<open>A completion client that answers its \<open>k\<close>-th request with the \<open>k\<close>-th entry of a script.\<close>

definition scripted ::
  "Message awaited list \<Rightarrow> MessageParam list \<Rightarrow> ExampleWorld \<Rightarrow> Message awaited \<times> ExampleWorld" where
  "scripted script msgs w =
     ((if requests w < length script then script ! requests w
       else Rejected (Error ''no more answers'')),
      w\<lparr>requests := requests w + 1\<rparr>)"

text \<open>A completion client that asks for the same tool on every request.\<close>

definition toolRequest :: Message where
  "toolRequest =
     \<lparr>Message.content = [TextBlock ''Let me look.'', ToolUseBlock ''toolu_1'' ''get_categories'' (JObj [])],
      stop_reason = tool_use,
      usage = Some \<lparr>input_tokens = 100, output_tokens = 20\<rparr>\<rparr>"

definition finalAnswer :: Message where
  "finalAnswer =
     \<lparr>Message.content = [TextBlock ''You have 2 categories.''],
      stop_reason = end_turn,
      usage = Some \<lparr>input_tokens = 150, output_tokens = 30\<rparr>\<rparr>"

definition alwaysTool :: "MessageParam list \<Rightarrow> ExampleWorld \<Rightarrow> Message awaited \<times> ExampleWorld" where
  "alwaysTool msgs w = (Resolved toolRequest, w\<lparr>requests := requests w + 1\<rparr>)"

definition get_categories :: "ExampleWorld Tool" where
  "get_categories =
     \<lparr>name = ''get_categories'',
      description = ''Retrieves all categories for the user'',
      input_schema = JObj [],
      execute = (\<lambda>inp ctx w.
        (Resolved \<lparr>ToolResult.content =
                     JArr [JObj [(''type'', JStr ''text''), (''text'', JStr ''Work, Home'')]],
                   ToolResult.is_error = None\<rparr>,
         w\<lparr>invocations := invocations w @ [(''get_categories'', ctx)]\<rparr>))\<rparr>"

definition failing_tool :: "ExampleWorld Tool" where
  "failing_tool =
     \<lparr>name = ''failing_tool'',
      description = ''A tool whose store is down'',
      input_schema = JObj [],
      execute = (\<lambda>inp ctx w.
        (Rejected (FirestoreError ''store unavailable''),
         w\<lparr>invocations := invocations w @ [(''failing_tool'', ctx)]\<rparr>))\<rparr>"

definition exampleEnv :: "ExampleWorld Env" where
  "exampleEnv =
     \<lparr>messages_create = scripted [Resolved toolRequest, Resolved finalAnswer],
      allTools = [get_categories, failing_tool],
      MAX_ITERATIONS = CLAUDE_CONFIG_MAX_ITERATIONS,
      AGENT_TIMEOUT_MS = DEFAULT_AGENT_TIMEOUT_MS,
      asyncEvents = (\<lambda>w. [])\<rparr>"

definition exampleInput :: AgentTaskInput where
  "exampleInput =
     \<lparr>AgentTaskInput.task = ''list categories'', AgentTaskInput.userId = ''owner-1'',
      AgentTaskInput.conversationId = None, AgentTaskInput.metadata = None\<rparr>"

definition freshResponse :: Response where
  "freshResponse = \<lparr>headers = [], written = [], ended = False, writeFails = False\<rparr>"

definition freshManager :: SSEManager where
  "freshManager = createSSEManager freshResponse ''client-1''"

















text \<open>A manager that has sent one event, an event to send, and things that happen later.\<close>

definition greeted :: SSEManager where
  "greeted = sendProgress ''hello'' None freshManager"

definition completeEvent :: SSEEvent where
  "completeEvent = \<lparr>etype = COMPLETE, data = JNull, timestamp = None\<rparr>"

definition laterOps :: "SSEOp list" where
  "laterOps =
     [Async Heartbeat, Send \<lparr>etype = THINKING, data = JNull, timestamp = None\<rparr>,
      Async RemoteClose]"


section \<open>Evaluation of the examples\<close>

lemmas example_defs =
  exampleEnv_def exampleInput_def emptyWorld_def scripted_def toolRequest_def finalAnswer_def
  get_categories_def failing_tool_def CLAUDE_CONFIG_MAX_ITERATIONS_def
  DEFAULT_AGENT_TIMEOUT_MS_def freshManager_def freshResponse_def alwaysTool_def

lemmas executor_defs =
  executeTask_def executeWithTimeout_def createAgentContext_def truthy_def tryTool_def
  errorToolResult_def countToolUses_def extractTextFromResponse_def whileAwaiting_def Let_def


section \<open>Properties of the Streaming Manager\<close>

lemma isClosed_close: "isClosed (close m)"
  by (simp add: close_def)

lemma isClosed_handleDisconnect: "isClosed (handleDisconnect m)"
  by (simp add: handleDisconnect_def)

lemma sendEvent_closed: "isClosed m \<Longrightarrow> sendEvent ev m = m"
  by (simp add: sendEvent_def)

lemma handleAsync_closed: "isClosed m \<Longrightarrow> handleAsync m a = m"
  by (cases a) (simp_all add: handleDisconnect_def pingCallback_def)

lemma applyOp_closed: "isClosed m \<Longrightarrow> applyOp m op = m"
  by (cases op) (simp_all add: sendEvent_def close_def handleAsync_closed)

lemma runOps_closed: "isClosed m \<Longrightarrow> runOps ops m = m"
  unfolding runOps_def by (induction ops) (simp_all add: applyOp_closed)

text \<open>
  C9.  Once a handle is closed, by the manager's own \<^verbatim>\<open>close\<close> or by a remote
  disconnect, every later \<^verbatim>\<open>sendEvent\<close> leaves the manager exactly as it is, so it
  writes nothing to the response; this holds after any further sends, closes, disconnects
  and heartbeats in between.  \<^verbatim>\<open>sendEvent\<close> has no error result at all: the only
  exception it can meet, that of the write, is caught inside it.
\<close>

theorem send_after_close_is_noop:
  assumes "m' = runOps ops (close m) \<or> m' = runOps ops (handleDisconnect m)"
  shows "sendEvent ev m' = m' \<and>
         written (response (sendEvent ev m')) = written (response m)"
proof -
  have c: "m' = close m \<or> m' = handleDisconnect m"
    using assms by (auto simp: runOps_closed isClosed_close isClosed_handleDisconnect)
  then have "isClosed m'"
    by (auto simp: isClosed_close isClosed_handleDisconnect)
  then have s: "sendEvent ev m' = m'"
    by (rule sendEvent_closed)
  have "written (response m') = written (response m)"
    using c by (auto simp: close_def handleDisconnect_def end_response_def)
  with s show ?thesis by simp
qed

lemma greeted_written: "map event (written (response greeted)) = [''progress'']"
  by (simp add: greeted_def sendProgress_def sendEvent_def response_write_def
      formatSSEMessage_def opt_field_def freshManager_def freshResponse_def
      createSSEManager_def setupSSE_def startPingInterval_def setHeader_def)

theorem send_after_close_is_noop_witness:
  "sendEvent completeEvent (runOps laterOps (close greeted)) = runOps laterOps (close greeted)
   \<and> map event (written (response (sendEvent completeEvent (runOps laterOps (close greeted)))))
       = [''progress'']"
proof -
  note t = send_after_close_is_noop [OF disjI1 [OF refl], of completeEvent laterOps greeted]
  show ?thesis
  proof (intro conjI)
    show "sendEvent completeEvent (runOps laterOps (close greeted)) = runOps laterOps (close greeted)"
      by (rule conjunct1 [OF t])
    show "map event (written (response (sendEvent completeEvent (runOps laterOps (close greeted)))))
            = [''progress'']"
      by (simp only: conjunct2 [OF t] greeted_written)
  qed
qed

section \<open>Agent loop\<close>

lemma executeTask_agentLoopOfTask:
  "executeTask E newTaskId startTime endTime inp sseManager w =
     (let loop = agentLoopOfTask E newTaskId inp sseManager w
      in case executeWithTimeout (settled loop) (AGENT_TIMEOUT_MS E) of
           Inr resp \<Rightarrow>
             (let res = \<lparr>AgentExecutionResult.taskId = newTaskId,
                         AgentExecutionResult.result = extractTextFromResponse resp,
                         toolsUsed = countToolUses resp,
                         iterations = 1,
                         durationMs = endTime - startTime,
                         tokensUsed = map_option tokensOfUsage (usage resp)\<rparr>
              in (Inr res,
                  map_option (\<lambda>m. close (streamTaskCompletion newTaskId (extractTextFromResponse resp) res m))
                    (manager loop),
                  world loop))
         | Inl e \<Rightarrow>
             (if instanceof_TimeoutError e then Inl e
              else Inl (AgentExecutionError
                     (''Agent task execution failed: '' @ error_message e)
                     [(''taskId'', JStr newTaskId), (''iterations'', JNum 0),
                      (''toolsUsed'', JNum 0), (''durationMs'', JNum (endTime - startTime))]),
              map_option (\<lambda>m. close (streamError e newTaskId m)) (manager loop),
              world loop))"
  by (simp add: executeTask_def agentLoopOfTask_def Let_def tokensOfUsage_def
      split: sum.splits option.splits)

lemma loop_resolved_is_last_answer:
  "settled (executeAgentLoop E ctx msgs sse n w) = Resolved resp \<Longrightarrow>
   \<exists>wb. messages_create E (conversation (executeAgentLoop E ctx msgs sse n w)) wb =
          (Resolved resp, world (executeAgentLoop E ctx msgs sse n w))"
proof (induction E ctx msgs sse n w rule: executeAgentLoop.induct)
  case (1 E cx messages sse iteration w)
  show ?case
    using "1.prems" "1.IH"
    apply (simp add: executeAgentLoop.simps [of E cx messages sse iteration w])
    apply (auto split: if_splits prod.splits awaited.splits simp: Let_def)
    done
qed

text \<open>
  C10.  When \<^verbatim>\<open>executeTask\<close> succeeds, the token usage it reports is computed from the
  usage record of one response only: the response the agent loop returned, which is the
  answer to the last request made to the completion client (the request carrying the
  final conversation, after which the loop touched nothing else).  Nothing is summed over
  the earlier requests.
\<close>

theorem reported_tokens_are_those_of_the_final_response:
  assumes "fst (executeTask E newTaskId startTime endTime inp sseManager w) = Inr res"
  shows "\<exists>resp wb.
           settled (agentLoopOfTask E newTaskId inp sseManager w) = Resolved resp \<and>
           messages_create E (conversation (agentLoopOfTask E newTaskId inp sseManager w)) wb =
             (Resolved resp, world (agentLoopOfTask E newTaskId inp sseManager w)) \<and>
           tokensUsed res = map_option tokensOfUsage (usage resp)"
proof -
  let ?loop = "agentLoopOfTask E newTaskId inp sseManager w"
  from assms obtain resp where r: "settled ?loop = Resolved resp"
    and t: "tokensUsed res = map_option tokensOfUsage (usage resp)"
    by (auto simp: executeTask_agentLoopOfTask executeWithTimeout_def Let_def
        split: awaited.splits if_splits)
  from r obtain wb where
    "messages_create E (conversation ?loop) wb = (Resolved resp, world ?loop)"
    unfolding agentLoopOfTask_def by (blast dest: loop_resolved_is_last_answer)
  with r t show ?thesis by blast
qed

lemma example_run_result:
  "fst (executeTask exampleEnv ''task-1'' 1000 1250 exampleInput None emptyWorld) =
     Inr \<lparr>AgentExecutionResult.taskId = ''task-1'', AgentExecutionResult.result = ''You have 2 categories.'',
          toolsUsed = 0, iterations = 1, durationMs = 250,
          tokensUsed = Some \<lparr>tokens_input = 150, tokens_output = 30, tokens_total = 180\<rparr>\<rparr>"
  by (simp add: example_defs executor_defs executeAgentLoop.simps)

lemma example_loop_settled:
  "settled (agentLoopOfTask exampleEnv ''task-1'' exampleInput None emptyWorld) = Resolved finalAnswer"
  by (simp add: agentLoopOfTask_def example_defs executor_defs executeAgentLoop.simps)

theorem reported_tokens_are_those_of_the_final_response_witness:
  "fst (executeTask exampleEnv ''task-1'' 1000 1250 exampleInput None emptyWorld) =
     Inr \<lparr>AgentExecutionResult.taskId = ''task-1'',
          AgentExecutionResult.result = ''You have 2 categories.'',
          toolsUsed = 0, iterations = 1, durationMs = 250,
          tokensUsed = Some \<lparr>tokens_input = 150, tokens_output = 30, tokens_total = 180\<rparr>\<rparr>
   \<and> settled (agentLoopOfTask exampleEnv ''task-1'' exampleInput None emptyWorld) = Resolved finalAnswer
   \<and> map_option tokensOfUsage (usage finalAnswer) =
       Some \<lparr>tokens_input = 150, tokens_output = 30, tokens_total = 180\<rparr>
   \<and> map_option tokensOfUsage (usage toolRequest) =
       Some \<lparr>tokens_input = 100, tokens_output = 20, tokens_total = 120\<rparr>"
  using reported_tokens_are_those_of_the_final_response [OF example_run_result]
  by (simp add: example_run_result example_loop_settled tokensOfUsage_def finalAnswer_def
      toolRequest_def)





section \<open>The context and the metadata of an execution\<close>

text \<open>
  C1.  What the code does at a concrete execution: the owner is \<^verbatim>\<open>owner-1\<close>, the task
  id drawn is \<^verbatim>\<open>task-1\<close>, the model asks for one tool and then answers.  The tool is
  handed a context whose \<^verbatim>\<open>userId\<close> is the task id and whose \<^verbatim>\<open>taskId\<close> is the owner:
  \<^verbatim>\<open>executeTask\<close> calls \<^verbatim>\<open>createAgentContext(taskId, input.userId, ...)\<close>, while the
  function is declared as \<^verbatim>\<open>createAgentContext(userId, taskId, ...)\<close>.
\<close>

theorem tools_receive_the_task_id_as_user_id:
  "map snd (invocations (snd (snd
     (executeTask exampleEnv ''task-1'' 1000 1250 exampleInput None emptyWorld)))) =
   [\<lparr>AgentContext.userId = ''task-1'', AgentContext.taskId = ''owner-1'',
     AgentContext.conversationId = None, AgentContext.metadata = None\<rparr>]"
  by (simp add: example_defs executor_defs executeAgentLoop.simps)

text \<open>
  C3.  What the code does at the same execution: the loop calls the completion client
  twice and runs one tool, and the result reports \<^verbatim>\<open>iterations = 1\<close> (the constant that
  \<^verbatim>\<open>executeTask\<close> assigns) and \<^verbatim>\<open>toolsUsed = 0\<close> (the tool-use blocks of the final
  response alone).
\<close>

theorem reported_iterations_and_tools_example:
  "fst (executeTask exampleEnv ''task-1'' 1000 1250 exampleInput None emptyWorld) =
     Inr \<lparr>AgentExecutionResult.taskId = ''task-1'',
          AgentExecutionResult.result = ''You have 2 categories.'',
          toolsUsed = 0, iterations = 1, durationMs = 250,
          tokensUsed = Some \<lparr>tokens_input = 150, tokens_output = 30, tokens_total = 180\<rparr>\<rparr>
   \<and> modelCalls (agentLoopOfTask exampleEnv ''task-1'' exampleInput None emptyWorld) = 2
   \<and> requests (snd (snd (executeTask exampleEnv ''task-1'' 1000 1250 exampleInput None emptyWorld))) = 2
   \<and> map fst (invocations (snd (snd
        (executeTask exampleEnv ''task-1'' 1000 1250 exampleInput None emptyWorld)))) =
       [''get_categories'']"
  by (simp add: agentLoopOfTask_def example_defs executor_defs executeAgentLoop.simps)

section \<open>Tool dispatch\<close>


















section \<open>The iteration limit\<close>




section \<open>The event sequence of a streamed execution\<close>













lemma attached_Some [simp]: "attached A m0 (Some m) = streaming A m0 m"
  by (simp add: attached_def)

lemma attached_None [simp]: "\<not> attached A m0 None"
  by (simp add: attached_def)

















section \<open>Task Tracker\<close>






section \<open>Queue and worker\<close>










end
